theory Spec2Isabelle
  imports Complex_Main "HOL-Library.Multiset"
begin

section \<open>Open-space generation (main.py, utils.py): a shallow embedding\<close>

text \<open>
  The program computes the public open space that a building site has to reserve.
  It is written against the Rhino/Grasshopper geometry kernel (\<^verbatim>\<open>Rhino.Geometry\<close>,
  \<^verbatim>\<open>ghpythonlib.components\<close>), which is not part of the repository.  The kernel
  is therefore a parameter of every definition below: a record \<open>K\<close> of the kernel
  operations the code calls, over a type \<open>'c\<close> of curves and a type \<open>'p\<close> of points.
  Python floats are modelled as \<^typ>\<open>real\<close>, Python \<^verbatim>\<open>str\<close> values as lists of
  Unicode code points, and every \<^verbatim>\<open>raise\<close> of the code and every failing index
  access is a value \<open>Inl e\<close> of a sum type.
\<close>

subsection \<open>Python values\<close>

type_synonym str = "nat list"

datatype error = ValueError | IndexError | ZeroDivisionError | ComplexScaleFactor

text \<open>\<^verbatim>\<open>xs[0]\<close>: the first element, or IndexError on the empty list.\<close>

definition index0 :: "'a list \<Rightarrow> error + 'a" where
  "index0 xs = (case xs of [] \<Rightarrow> Inl IndexError | x # _ \<Rightarrow> Inr x)"

subsection \<open>The geometry kernel, a parameter\<close>

text \<open>
  Modelled from the spec: the values of the kernel's region relationship.  The
  enumeration \<^verbatim>\<open>geo.RegionContainment\<close> is declared by the kernel, not by the
  repository; section 6 of the specification lists its values as disjoint, touching,
  overlapping and contained.  The code names only \<^verbatim>\<open>Disjoint\<close>.
\<close>

datatype RegionContainment = Disjoint | Touching | Overlapping | Contained

text \<open>The result of the kernel's polyline offset: the two outputs the code reads.\<close>

record 'c PolylineOffsetResult =
  contour :: "'c list"
  holes :: "'c list"

text \<open>
  One field for each kernel call of the source:
  \<^item> \<open>Area c\<close> is \<^verbatim>\<open>geo.AreaMassProperties.Compute(c).Area\<close>;
  \<^item> \<open>PlanarCurveCollision a b tol\<close> is \<^verbatim>\<open>geo.Curve.PlanarCurveCollision(a, b, geo.Plane.WorldXY, tol)\<close>;
  \<^item> \<open>Explode_vertices a\<close> is \<^verbatim>\<open>ghcomp.Explode(a, True).vertices\<close>;
  \<^item> \<open>CurveXCurve_points a b\<close> is \<^verbatim>\<open>ghcomp.CurveXCurve(a, b).points\<close>;
  \<^item> \<open>CurveClosestPoint_parameter pt a\<close> is \<^verbatim>\<open>ghcomp.CurveClosestPoint(pt, a).parameter\<close>;
  \<^item> \<open>Shatter a ts\<close> is \<^verbatim>\<open>ghcomp.Shatter(a, ts)\<close>;
  \<^item> \<open>JoinCurves cs\<close> is \<^verbatim>\<open>geo.Curve.JoinCurves(cs)\<close>;
  \<^item> \<open>GetLength c\<close> is \<^verbatim>\<open>c.GetLength()\<close>, \<open>PointAt c t\<close> is \<^verbatim>\<open>c.PointAt(t)\<close>,
    \<open>PointAtEnd_Z c\<close> is \<^verbatim>\<open>c.PointAtEnd.Z\<close>;
  \<^item> \<open>Scale c p f\<close> is \<^verbatim>\<open>ghcomp.Scale(c, p, f).geometry\<close>;
  \<^item> \<open>PlanarClosedCurveRelationship a b tol\<close> is
    \<^verbatim>\<open>geo.Curve.PlanarClosedCurveRelationship(a, b, geo.Plane.WorldXY, tol)\<close>;
  \<^item> \<open>PolylineOffset crvs distance z closed_fillet open_fillet miter\<close> is
    \<^verbatim>\<open>ghcomp.ClipperComponents.PolylineOffset\<close> on the plane through \<open>(0, 0, z)\<close> with
    normal Z and the kernel's zero tolerance.
\<close>

record ('c, 'p) kernel =
  Area :: "'c \<Rightarrow> real"
  PlanarCurveCollision :: "'c \<Rightarrow> 'c \<Rightarrow> real \<Rightarrow> bool"
  Explode_vertices :: "'c \<Rightarrow> 'p list"
  CurveXCurve_points :: "'c \<Rightarrow> 'c \<Rightarrow> 'p list"
  CurveClosestPoint_parameter :: "'p \<Rightarrow> 'c \<Rightarrow> real"
  Shatter :: "'c \<Rightarrow> real list \<Rightarrow> 'c list"
  JoinCurves :: "'c list \<Rightarrow> 'c list"
  GetLength :: "'c \<Rightarrow> real"
  PointAt :: "'c \<Rightarrow> real \<Rightarrow> 'p"
  PointAtEnd_Z :: "'c \<Rightarrow> real"
  Scale :: "'c \<Rightarrow> 'p \<Rightarrow> real \<Rightarrow> 'c"
  PlanarClosedCurveRelationship :: "'c \<Rightarrow> 'c \<Rightarrow> real \<Rightarrow> RegionContainment"
  PolylineOffset :: "'c list \<Rightarrow> real \<Rightarrow> real \<Rightarrow> nat \<Rightarrow> nat \<Rightarrow> int \<Rightarrow> 'c PolylineOffsetResult"

subsection \<open>utils.py: constants\<close>

definition BIGNUM :: int where "BIGNUM = 10000000"
definition TOL :: real where "TOL = 1 / 1000"
definition DIST_TOL :: real where "DIST_TOL = 1 / 100"
definition AREA_TOL :: real where "AREA_TOL = 1 / 10"
definition OP_TOL :: real where "OP_TOL = 1 / 100000"
definition CLIPPER_TOL :: real where "CLIPPER_TOL = 1 / 10000000000"

subsection \<open>main.py: the site model\<close>

record 'c Lot =
  region :: 'c
  district_use :: str
  area :: real

text \<open>\<^verbatim>\<open>Lot.__init__\<close>: the area is the kernel's area of the region.\<close>

definition mk_Lot :: "('c, 'p) kernel \<Rightarrow> 'c \<Rightarrow> str \<Rightarrow> 'c Lot" where
  "mk_Lot K r d = \<lparr>region = r, district_use = d, area = Area K r\<rparr>"

record 'c Road =
  curve :: 'c

record 'c Building =
  regions :: "'c list"
  floor_area :: real
  floor_count :: int
  total_area :: real
  use :: str

text \<open>\<^verbatim>\<open>Building.__init__\<close>.\<close>

definition mk_Building :: "('c, 'p) kernel \<Rightarrow> 'c list \<Rightarrow> int \<Rightarrow> str \<Rightarrow> 'c Building" where
  "mk_Building K rs n u =
     (let fa = sum_list (map (Area K) rs)
      in \<lparr>regions = rs, floor_area = fa, floor_count = n,
          total_area = fa * of_int n, use = u\<rparr>)"

subsection \<open>main.py: OpenspaceRequirement\<close>

definition MIN_AREA :: real where "MIN_AREA = 90"
definition MIN_DEPTH :: real where "MIN_DEPTH = 9"
definition AREA_RATIO :: real where "AREA_RATIO = 1 / 10"
definition ROAD_ADJUST_RATIO :: real where "ROAD_ADJUST_RATIO = 1 / 4"

text \<open>
  The two tuples of string literals tested by \<^verbatim>\<open>_get_target_information\<close>, as code
  points: the four zoning categories (general residential, quasi-residential,
  commercial, quasi-industrial) and the seven building uses (cultural, assembly,
  religious, sales, transportation, business, lodging).
\<close>

definition district_uses :: "str list" where
  "district_uses =
     [[0xC77C, 0xBC18, 0xC8FC, 0xAC70, 0xC9C0, 0xC5ED],
      [0xC900, 0xC8FC, 0xAC70, 0xC9C0, 0xC5ED],
      [0xC0C1, 0xC5C5, 0xC9C0, 0xC5ED],
      [0xC900, 0xACF5, 0xC5C5, 0xC9C0, 0xC5ED]]"

definition building_uses :: "str list" where
  "building_uses =
     [[0xBB38, 0xD654, 0xC2DC, 0xC124],
      [0xC9D1, 0xD68C, 0xC2DC, 0xC124],
      [0xC885, 0xAD50, 0xC2DC, 0xC124],
      [0xD310, 0xB9E4, 0xC2DC, 0xC124],
      [0xC6B4, 0xC218, 0xC2DC, 0xC124],
      [0xC5C5, 0xBB34, 0xC2DC, 0xC124],
      [0xC219, 0xBC15, 0xC2DC, 0xC124]]"

text \<open>
  \<^verbatim>\<open>OpenspaceRequirement.__init__\<close> sets \<^verbatim>\<open>self.area = 0\<close> and calls
  \<^verbatim>\<open>_get_target_information\<close>, which returns early at each failed condition and
  otherwise overwrites the area.  The value of \<^verbatim>\<open>self.area\<close> after construction:
\<close>

definition get_target_information :: "'c Lot \<Rightarrow> 'c Building \<Rightarrow> real" where
  "get_target_information l b =
     (if district_use l \<notin> set district_uses then 0
      else if use b \<notin> set building_uses then 0
      else if total_area b < 5000 then 0
      else max (area l * AREA_RATIO) MIN_AREA)"

record OpenspaceRequirement =
  requirement_area :: real

definition mk_OpenspaceRequirement :: "'c Lot \<Rightarrow> 'c Building \<Rightarrow> OpenspaceRequirement" where
  "mk_OpenspaceRequirement l b = \<lparr>requirement_area = get_target_information l b\<rparr>"

subsection \<open>utils.py: overlap of two curves\<close>

text \<open>
  \<^verbatim>\<open>get_overlap_crv(crv_a, crv_b)\<close>: the pieces of \<open>crv_a\<close>, cut at its vertices and
  at its intersections with \<open>crv_b\<close>, that collide with \<open>crv_b\<close>, joined.  The three
  early returns of the source give the empty list.
\<close>

definition get_overlap_crv :: "('c, 'p) kernel \<Rightarrow> 'c \<Rightarrow> 'c \<Rightarrow> 'c list" where
  "get_overlap_crv K crv_a crv_b =
     (if \<not> PlanarCurveCollision K crv_a crv_b TOL then []
      else
        let pts_to_split = Explode_vertices K crv_a @ CurveXCurve_points K crv_a crv_b
        in if pts_to_split = [] then []
           else
             let parameters = map (\<lambda>pt. CurveClosestPoint_parameter K pt crv_a) pts_to_split;
                 segments = Shatter K crv_a parameters;
                 overlaped_segments =
                   filter (\<lambda>seg. PlanarCurveCollision K seg crv_b TOL) segments
             in if overlaped_segments = [] then [] else JoinCurves K overlaped_segments)"

text \<open>\<^verbatim>\<open>get_overlap_length\<close>: the summed length of the overlap, 0.0 when there is none.\<close>

definition get_overlap_length :: "('c, 'p) kernel \<Rightarrow> 'c \<Rightarrow> 'c \<Rightarrow> real" where
  "get_overlap_length K crv_a crv_b =
     (let overlap_crvs = get_overlap_crv K crv_a crv_b
      in if overlap_crvs = [] then 0
         else foldl (\<lambda>len crv. len + GetLength K crv) 0 overlap_crvs)"

definition is_intersection_with_other_crvs :: "('c, 'p) kernel \<Rightarrow> 'c \<Rightarrow> 'c list \<Rightarrow> bool" where
  "is_intersection_with_other_crvs K crv crvs =
     list_ex (\<lambda>other_crv. PlanarCurveCollision K crv other_crv OP_TOL) crvs"

text \<open>
  \<^verbatim>\<open>has_region_intersection\<close>: False exactly when the kernel classifies the two
  regions as \<^verbatim>\<open>Disjoint\<close> (the source's comment: completely apart, no part touching).
\<close>

definition has_region_intersection :: "('c, 'p) kernel \<Rightarrow> 'c \<Rightarrow> 'c \<Rightarrow> real \<Rightarrow> bool" where
  "has_region_intersection K r other_region tol =
     (if PlanarClosedCurveRelationship K r other_region tol = Disjoint then False else True)"

subsection \<open>utils.py: offsetting\<close>

text \<open>
  \<^verbatim>\<open>Offset.polyline_offset\<close> with its defaults \<open>closed_fillet = 2\<close> and
  \<open>open_fillet = 2\<close>.  Its decorator wraps a single curve argument into a one-element
  list, so the model takes a list; the caller that passes one curve passes \<open>[c]\<close>.
\<close>

definition polyline_offset ::
  "('c, 'p) kernel \<Rightarrow> 'c list \<Rightarrow> real \<Rightarrow> int \<Rightarrow> error + 'c PolylineOffsetResult" where
  "polyline_offset K crvs dists miter =
     (if crvs = [] then Inl ValueError
      else Inr (PolylineOffset K crvs dists (PointAtEnd_Z K (hd crvs)) 2 2 miter))"

text \<open>\<^verbatim>\<open>offset_regions_inward\<close>, called with a list of regions.\<close>

definition offset_regions_inward ::
  "('c, 'p) kernel \<Rightarrow> 'c list \<Rightarrow> real \<Rightarrow> int \<Rightarrow> error + 'c list" where
  "offset_regions_inward K rs distance miter =
     (if distance = 0 then Inr rs
      else case polyline_offset K rs distance miter of
             Inl e \<Rightarrow> Inl e
           | Inr res \<Rightarrow> Inr (holes res))"

text \<open>
  \<^verbatim>\<open>offset_region_outward\<close>: the first contour of the offset of one region.  The
  \<^verbatim>\<open>isinstance\<close> test of the source cannot fail on a value of the curve type; the
  index \<^verbatim>\<open>contour[0]\<close> fails when the kernel returns no contour.
\<close>

definition offset_region_outward ::
  "('c, 'p) kernel \<Rightarrow> 'c \<Rightarrow> real \<Rightarrow> int \<Rightarrow> error + 'c" where
  "offset_region_outward K r distance miter =
     (if distance = 0 then Inr r
      else case polyline_offset K [r] distance miter of
             Inl e \<Rightarrow> Inl e
           | Inr res \<Rightarrow> index0 (contour res))"

text \<open>
  \<^verbatim>\<open>offset_regions_outward\<close>, called with a list: the list comprehension calls
  \<^verbatim>\<open>offset_region_outward\<close> on each region in order, and the first exception ends it.
\<close>

fun offset_regions_outward ::
  "('c, 'p) kernel \<Rightarrow> 'c list \<Rightarrow> real \<Rightarrow> int \<Rightarrow> error + 'c list" where
  "offset_regions_outward K [] distance miter = Inr []"
| "offset_regions_outward K (r # rs) distance miter =
     (case offset_region_outward K r distance miter of
        Inl e \<Rightarrow> Inl e
      | Inr c \<Rightarrow>
          (case offset_regions_outward K rs distance miter of
             Inl e \<Rightarrow> Inl e
           | Inr cs \<Rightarrow> Inr (c # cs)))"

subsection \<open>main.py: OepnspaceGenerator\<close>

record 'c OepnspaceGenerator =
  lot :: "'c Lot"
  roads :: "'c Road list"
  building :: "'c Building"
  parking_region :: 'c
  requirement :: OpenspaceRequirement

text \<open>
  The filtering loop inside \<^verbatim>\<open>get_candidate_regions\<close>: an inward region is skipped
  when \<^verbatim>\<open>has_region_intersection\<close> holds for some building region, kept otherwise.
\<close>

definition filter_inward_regions ::
  "('c, 'p) kernel \<Rightarrow> 'c OepnspaceGenerator \<Rightarrow> 'c list \<Rightarrow> 'c list" where
  "filter_inward_regions K g inward_regions =
     filter (\<lambda>r. \<not> list_ex (\<lambda>other_region. has_region_intersection K r other_region TOL)
                       (regions (building g)))
       inward_regions"

definition get_candidate_regions ::
  "('c, 'p) kernel \<Rightarrow> 'c OepnspaceGenerator \<Rightarrow> error + 'c list" where
  "get_candidate_regions K g =
     (case offset_regions_inward K
             ([region (lot g), parking_region g] @ regions (building g))
             (MIN_DEPTH / 2) BIGNUM of
        Inl e \<Rightarrow> Inl e
      | Inr inward_regions \<Rightarrow>
          offset_regions_outward K (filter_inward_regions K g inward_regions)
            (MIN_DEPTH / 2) BIGNUM)"

text \<open>\<^verbatim>\<open>is_road_adjacent\<close>: the loop over the roads, returning at the first hit.\<close>

fun is_road_adjacent_loop ::
  "('c, 'p) kernel \<Rightarrow> 'c OepnspaceGenerator \<Rightarrow> 'c \<Rightarrow> 'c Road list \<Rightarrow> bool" where
  "is_road_adjacent_loop K g candidate [] = False"
| "is_road_adjacent_loop K g candidate (road # rest) =
     (let candidate_overlap_length = get_overlap_length K candidate (curve road);
          lot_overlap_length = get_overlap_length K (region (lot g)) (curve road)
      in if candidate_overlap_length > lot_overlap_length * ROAD_ADJUST_RATIO then True
         else is_road_adjacent_loop K g candidate rest)"

definition is_road_adjacent :: "('c, 'p) kernel \<Rightarrow> 'c OepnspaceGenerator \<Rightarrow> 'c \<Rightarrow> bool" where
  "is_road_adjacent K g candidate = is_road_adjacent_loop K g candidate (roads g)"

text \<open>\<^verbatim>\<open>filter_candidate_regions\<close>: the road filter, then the area filter.\<close>

definition filter_candidate_regions ::
  "('c, 'p) kernel \<Rightarrow> 'c OepnspaceGenerator \<Rightarrow> 'c list \<Rightarrow> 'c list" where
  "filter_candidate_regions K g candidates =
     filter (\<lambda>x. Area K x \<ge> MIN_AREA) (filter (\<lambda>x. is_road_adjacent K g x) candidates)"

text \<open>
  Python's built-in \<^verbatim>\<open>sorted(xs, key=f, reverse=r)\<close> on float keys: a stable sort,
  ascending in the key, and with \<open>reverse\<close> descending in the key while elements
  with equal keys keep their input order.  The model is the stable insertion sort
  \<^const>\<open>sort_key\<close>, on the negated key when \<open>reverse\<close> is set.
\<close>

definition sorted_py :: "('a \<Rightarrow> real) \<Rightarrow> bool \<Rightarrow> 'a list \<Rightarrow> 'a list" where
  "sorted_py f reverse xs = (if reverse then sort_key (\<lambda>x. - f x) xs else sort_key f xs)"

definition sort_candidate_regions :: "('c, 'p) kernel \<Rightarrow> 'c list \<Rightarrow> 'c list" where
  "sort_candidate_regions K candidates = sorted_py (\<lambda>x. Area K x) True candidates"

text \<open>
  \<^verbatim>\<open>reduce_region\<close>.  \<^verbatim>\<open>region.Duplicate()\<close> is the region itself, values being
  immutable here.  The scale factor \<^verbatim>\<open>(target_area / area) ** 0.5\<close> raises
  ZeroDivisionError when the area is 0 and is a complex number in Python when the
  quotient is negative, which the kernel's scaling does not take: the model ends
  there with \<open>ComplexScaleFactor\<close>, after the index access as in the source.
  \<^verbatim>\<open>get_overlap_crv(...)[0]\<close> is an unguarded index.
\<close>

definition reduce_region ::
  "('c, 'p) kernel \<Rightarrow> 'c OepnspaceGenerator \<Rightarrow> 'c \<Rightarrow> real \<Rightarrow> error + 'c" where
  "reduce_region K g r target_area =
     (let a = Area K r
      in if a \<le> target_area then Inr r
         else if a = 0 then Inl ZeroDivisionError
         else
           case index0 (get_overlap_crv K r (region (lot g))) of
             Inl e \<Rightarrow> Inl e
           | Inr seg \<Rightarrow>
               if target_area / a < 0 then Inl ComplexScaleFactor
               else Inr (Scale K r (PointAt K seg (1 / 2)) (sqrt (target_area / a))))"

text \<open>
  The loop of \<^verbatim>\<open>adjust_candidate_regions\<close>, with its two variables
  \<^verbatim>\<open>total_area\<close> (here \<open>tot\<close>) and \<^verbatim>\<open>adjusted_candidates\<close> as arguments.  A candidate that would
  overshoot the requirement is reduced and measured again; the candidate is appended
  and the total updated; the loop ends once the total has reached the requirement.
\<close>

fun adjust_loop ::
  "('c, 'p) kernel \<Rightarrow> 'c OepnspaceGenerator \<Rightarrow> real \<Rightarrow> 'c list \<Rightarrow> 'c list \<Rightarrow> error + 'c list" where
  "adjust_loop K g tot adjusted_candidates [] = Inr adjusted_candidates"
| "adjust_loop K g tot adjusted_candidates (candidate # rest) =
     (case (if tot + Area K candidate > requirement_area (requirement g)
            then (case reduce_region K g candidate (requirement_area (requirement g) - tot) of
                    Inl e \<Rightarrow> Inl e
                  | Inr c \<Rightarrow> Inr (c, Area K c))
            else Inr (candidate, Area K candidate)) of
        Inl e \<Rightarrow> Inl e
      | Inr (c, a) \<Rightarrow>
          if tot + a \<ge> requirement_area (requirement g)
          then Inr (adjusted_candidates @ [c])
          else adjust_loop K g (tot + a) (adjusted_candidates @ [c]) rest)"

definition adjust_candidate_regions ::
  "('c, 'p) kernel \<Rightarrow> 'c OepnspaceGenerator \<Rightarrow> 'c list \<Rightarrow> error + 'c list" where
  "adjust_candidate_regions K g candidates = adjust_loop K g 0 [] candidates"

text \<open>\<^verbatim>\<open>get_openspace\<close>: generate, filter, sort, adjust.\<close>

definition get_openspace ::
  "('c, 'p) kernel \<Rightarrow> 'c OepnspaceGenerator \<Rightarrow> error + 'c list" where
  "get_openspace K g =
     (case get_candidate_regions K g of
        Inl e \<Rightarrow> Inl e
      | Inr candidates \<Rightarrow>
          adjust_candidate_regions K g
            (sort_candidate_regions K (filter_candidate_regions K g candidates)))"

text \<open>The total area of a list of regions, as the script's last lines compute it.\<close>

definition sum_area :: "('c, 'p) kernel \<Rightarrow> 'c list \<Rightarrow> real" where
  "sum_area K rs = sum_list (map (Area K) rs)"

subsection \<open>main.py: the script\<close>

text \<open>
  The last lines of main.py build the generator from the four inputs of the script
  (\<^verbatim>\<open>lot_region\<close>, \<^verbatim>\<open>road_regions\<close>, \<^verbatim>\<open>building_regions\<close>, \<^verbatim>\<open>parking_region\<close>),
  with the district use, the floor count 5 and the building use written in the
  script, and run \<^verbatim>\<open>get_openspace\<close>.
\<close>

definition script_generator ::
  "('c, 'p) kernel \<Rightarrow> 'c \<Rightarrow> 'c list \<Rightarrow> 'c list \<Rightarrow> 'c \<Rightarrow> 'c OepnspaceGenerator" where
  "script_generator K lot_region road_regions building_regions parking =
     (let l = mk_Lot K lot_region [0xC77C, 0xBC18, 0xC8FC, 0xAC70, 0xC9C0, 0xC5ED];
          rs = map (\<lambda>r. \<lparr>curve = r\<rparr>) road_regions;
          b = mk_Building K building_regions 5 [0xC5C5, 0xBB34, 0xC2DC, 0xC124]
      in \<lparr>lot = l, roads = rs, building = b, parking_region = parking,
          requirement = mk_OpenspaceRequirement l b\<rparr>)"

definition openspace_regions ::
  "('c, 'p) kernel \<Rightarrow> 'c \<Rightarrow> 'c list \<Rightarrow> 'c list \<Rightarrow> 'c \<Rightarrow> error + 'c list" where
  "openspace_regions K lot_region road_regions building_regions parking =
     get_openspace K (script_generator K lot_region road_regions building_regions parking)"

subsection \<open>A sample kernel\<close>

text \<open>
  A small kernel on which the definitions can be run.  Its curves are squares, given
  by the length of their side, of two kinds: \<open>Corner s\<close> lies in the corner of the lot,
  its boundary meeting that of every other \<open>Corner\<close>; \<open>Island s\<close> lies apart from every
  \<open>Corner\<close>, inside or around every other \<open>Island\<close>, and has no outward offset.  The lot
  of the sample sites is \<open>Corner 100\<close>.
\<close>

datatype sample_curve = is_Corner: Corner (side: real) | Island (side: real)

definition sample_kernel :: "(sample_curve, real) kernel" where
  "sample_kernel =
     \<lparr>Area = (\<lambda>c. side c * side c),
      PlanarCurveCollision = (\<lambda>a b tol. is_Corner a \<and> is_Corner b),
      Explode_vertices = (\<lambda>a. [0, side a]),
      CurveXCurve_points = (\<lambda>a b. []),
      CurveClosestPoint_parameter = (\<lambda>p a. p),
      Shatter = (\<lambda>a ts. [a]),
      JoinCurves = (\<lambda>cs. cs),
      GetLength = (\<lambda>c. 4 * side c),
      PointAt = (\<lambda>c t. t * side c),
      PointAtEnd_Z = (\<lambda>c. 0),
      Scale = (\<lambda>c p f. case c of Corner s \<Rightarrow> Corner (f * s) | Island s \<Rightarrow> Island (f * s)),
      PlanarClosedCurveRelationship =
        (\<lambda>a b tol. if is_Corner a \<and> is_Corner b then Touching
                   else if \<not> is_Corner a \<and> \<not> is_Corner b then Contained
                   else Disjoint),
      PolylineOffset = (\<lambda>crvs d z closed_fillet open_fillet miter.
         \<lparr>contour = concat (map (\<lambda>c. case c of Corner s \<Rightarrow> [Corner (s + 2 * d)]
                                              | Island s \<Rightarrow> []) crvs),
          holes = map (\<lambda>c. case c of Corner s \<Rightarrow> Corner (s - 2 * d)
                                   | Island s \<Rightarrow> Island (s - 2 * d)) crvs\<rparr>)\<rparr>"

text \<open>
  Four sites on the lot \<open>Corner 100\<close>, as the script would build them.
  \<^item> \<open>site_office\<close>: one road, a building of footprint 1600 (total floor area 8000), a
    parking region in the corner; the requirement is 1000.
  \<^item> \<open>site_small\<close>: the same with a building of footprint 800, so that the total floor
    area is 4000 and the requirement is 0.
  \<^item> \<open>site_no_road\<close>: \<open>site_office\<close> without roads.
  \<^item> \<open>site_island\<close>: a building in the corner and a parking region apart from it,
    with or without the road.
\<close>

definition site_office :: "sample_curve OepnspaceGenerator" where
  "site_office = script_generator sample_kernel (Corner 100) [Corner 200] [Island 40] (Corner 30)"

definition site_small :: "sample_curve OepnspaceGenerator" where
  "site_small =
     script_generator sample_kernel (Corner 100) [Corner 200] [Island 20, Island 20] (Corner 30)"

definition site_no_road :: "sample_curve OepnspaceGenerator" where
  "site_no_road = script_generator sample_kernel (Corner 100) [] [Island 40] (Corner 30)"

definition site_island :: "sample_curve list \<Rightarrow> sample_curve OepnspaceGenerator" where
  "site_island road_regions =
     script_generator sample_kernel (Corner 100) road_regions [Corner 40] (Island 30)"

text \<open>
  The sample kernel in finite precision: scaling keeps ten binary digits of the side
  after the point and drops the rest, so that the area of a scaled square can fall
  short of the area asked for, as it does in floating-point arithmetic.  The site
  \<open>site_grid\<close> is \<open>site_office\<close> on the lot \<open>Corner 70\<close> with this kernel; its
  requirement is 490.  The site \<open>site_detached\<close> runs the sample kernel on a lot whose
  boundary meets no candidate.
\<close>

definition grid :: "real \<Rightarrow> real" where
  "grid x = of_int \<lfloor>x * 1024\<rfloor> / 1024"

definition grid_kernel :: "(sample_curve, real) kernel" where
  "grid_kernel =
     sample_kernel
       \<lparr>Scale := (\<lambda>c p f. case c of Corner s \<Rightarrow> Corner (grid (f * s))
                                    | Island s \<Rightarrow> Island (grid (f * s)))\<rparr>"

definition site_grid :: "sample_curve OepnspaceGenerator" where
  "site_grid = script_generator grid_kernel (Corner 70) [Corner 200] [Island 40] (Corner 30)"

definition site_detached :: "sample_curve OepnspaceGenerator" where
  "site_detached = script_generator sample_kernel (Island 100) [Corner 200] [Island 40] (Corner 40)"


section \<open>Theorems\<close>

subsection \<open>The requirement evaluator\<close>

text \<open>
  C2. The requirement evaluator is a total function of the lot and the building: it
  is \<open>max (lot.area * 0.1) 90\<close> when the lot's district use is one of the four zoning
  categories, the building's use is one of the seven use categories and the total
  floor area is at least 5000, and it is 0 as soon as one of the three conditions
  fails.
\<close>

theorem requirement_evaluator:
  "requirement_area (mk_OpenspaceRequirement l b) =
     (if district_use l \<in> set district_uses \<and> use b \<in> set building_uses
         \<and> 5000 \<le> total_area b
      then max (area l * (1 / 10)) 90 else 0)
   \<and> length district_uses = 4 \<and> distinct district_uses
   \<and> length building_uses = 7 \<and> distinct building_uses"
  by (simp add: mk_OpenspaceRequirement_def get_target_information_def AREA_RATIO_def
      MIN_AREA_def district_uses_def building_uses_def)

text \<open>
  C9. The computed requirement is either exactly 0 or at least 90 (\<open>MIN_AREA\<close>): it is
  never negative and never strictly between 0 and 90.
\<close>

theorem requirement_zero_or_min_area:
  "(requirement_area (mk_OpenspaceRequirement l b) = 0
      \<or> MIN_AREA \<le> requirement_area (mk_OpenspaceRequirement l b))
   \<and> MIN_AREA = 90
   \<and> 0 \<le> requirement_area (mk_OpenspaceRequirement l b)
   \<and> \<not> (0 < requirement_area (mk_OpenspaceRequirement l b)
          \<and> requirement_area (mk_OpenspaceRequirement l b) < 90)"
  by (simp add: mk_OpenspaceRequirement_def get_target_information_def MIN_AREA_def
      le_max_iff_disj)

subsection \<open>The sample kernel, evaluated\<close>

lemma sample_Area: "Area sample_kernel c = side c * side c"
  by (simp add: sample_kernel_def)

lemma sample_Scale:
  "Scale sample_kernel (Corner s) p f = Corner (f * s)"
  "Scale sample_kernel (Island s) p f = Island (f * s)"
  by (simp_all add: sample_kernel_def)

lemma sample_overlap_crv:
  "get_overlap_crv sample_kernel a b = (if is_Corner a \<and> is_Corner b then [a] else [])"
  by (simp add: get_overlap_crv_def sample_kernel_def)

lemma sample_overlap_length:
  "get_overlap_length sample_kernel a b = (if is_Corner a \<and> is_Corner b then 4 * side a else 0)"
  by (simp add: get_overlap_length_def sample_overlap_crv) (simp add: sample_kernel_def)

lemma sample_relationship:
  "PlanarClosedCurveRelationship sample_kernel a b tol =
     (if is_Corner a \<and> is_Corner b then Touching
      else if \<not> is_Corner a \<and> \<not> is_Corner b then Contained else Disjoint)"
  by (simp add: sample_kernel_def)

lemma sample_offset_Corner:
  "offset_region_outward sample_kernel (Corner s) (MIN_DEPTH / 2) BIGNUM = Inr (Corner (s + 9))"
  by (simp add: offset_region_outward_def polyline_offset_def index0_def MIN_DEPTH_def
      sample_kernel_def)

lemma sample_offset_Island:
  "offset_region_outward sample_kernel (Island s) (MIN_DEPTH / 2) BIGNUM = Inl IndexError"
  by (simp add: offset_region_outward_def polyline_offset_def index0_def MIN_DEPTH_def
      sample_kernel_def)

lemma sample_inward:
  "offset_regions_inward sample_kernel rs (MIN_DEPTH / 2) BIGNUM =
     (if rs = [] then Inl ValueError
      else Inr (map (\<lambda>c. case c of Corner s \<Rightarrow> Corner (s - 9) | Island s \<Rightarrow> Island (s - 9)) rs))"
  by (simp add: offset_regions_inward_def polyline_offset_def MIN_DEPTH_def sample_kernel_def)

lemma site_office_fields:
  "region (lot site_office) = Corner 100"
  "roads site_office = [\<lparr>curve = Corner 200\<rparr>]"
  "regions (building site_office) = [Island 40]"
  "parking_region site_office = Corner 30"
  "total_area (building site_office) = 8000"
  "requirement_area (requirement site_office) = 1000"
  by (simp_all add: site_office_def script_generator_def mk_Lot_def mk_Building_def
      mk_OpenspaceRequirement_def get_target_information_def district_uses_def
      building_uses_def AREA_RATIO_def MIN_AREA_def sample_Area Let_def)

lemma site_small_fields:
  "region (lot site_small) = Corner 100"
  "roads site_small = [\<lparr>curve = Corner 200\<rparr>]"
  "regions (building site_small) = [Island 20, Island 20]"
  "parking_region site_small = Corner 30"
  "total_area (building site_small) = 4000"
  "requirement_area (requirement site_small) = 0"
  by (simp_all add: site_small_def script_generator_def mk_Lot_def mk_Building_def
      mk_OpenspaceRequirement_def get_target_information_def district_uses_def
      building_uses_def AREA_RATIO_def MIN_AREA_def sample_Area Let_def)

lemma site_no_road_fields:
  "region (lot site_no_road) = Corner 100"
  "roads site_no_road = []"
  "regions (building site_no_road) = [Island 40]"
  "parking_region site_no_road = Corner 30"
  "requirement_area (requirement site_no_road) = 1000"
  by (simp_all add: site_no_road_def script_generator_def mk_Lot_def mk_Building_def
      mk_OpenspaceRequirement_def get_target_information_def district_uses_def
      building_uses_def AREA_RATIO_def MIN_AREA_def sample_Area Let_def)

lemma site_island_fields:
  "region (lot (site_island rs)) = Corner 100"
  "roads (site_island rs) = map (\<lambda>r. \<lparr>curve = r\<rparr>) rs"
  "regions (building (site_island rs)) = [Corner 40]"
  "parking_region (site_island rs) = Island 30"
  "requirement_area (requirement (site_island rs)) = 1000"
  by (simp_all add: site_island_def script_generator_def mk_Lot_def mk_Building_def
      mk_OpenspaceRequirement_def get_target_information_def district_uses_def
      building_uses_def AREA_RATIO_def MIN_AREA_def sample_Area Let_def)

lemma site_small_candidates:
  "get_candidate_regions sample_kernel site_small = Inr [Corner 100, Corner 30]"
  by (simp add: get_candidate_regions_def sample_inward site_small_fields
      filter_inward_regions_def has_region_intersection_def sample_relationship
      sample_offset_Corner)

lemma site_no_road_candidates:
  "get_candidate_regions sample_kernel site_no_road = Inr [Corner 100, Corner 30]"
  by (simp add: get_candidate_regions_def sample_inward site_no_road_fields
      filter_inward_regions_def has_region_intersection_def sample_relationship
      sample_offset_Corner)

lemma site_island_inward:
  "filter_inward_regions sample_kernel (site_island rs) [Corner 91, Island 21, Corner 31]
     = [Island 21]"
  by (simp add: site_island_fields filter_inward_regions_def has_region_intersection_def
      sample_relationship)

lemma site_island_candidates:
  "get_candidate_regions sample_kernel (site_island rs) = Inl IndexError"
  by (simp add: get_candidate_regions_def sample_inward site_island_fields
      site_island_inward sample_offset_Island)

lemma site_small_filtered:
  "sort_candidate_regions sample_kernel
     (filter_candidate_regions sample_kernel site_small [Corner 100, Corner 30])
   = [Corner 100, Corner 30]"
  by (simp add: filter_candidate_regions_def is_road_adjacent_def site_small_fields
      sample_overlap_length ROAD_ADJUST_RATIO_def MIN_AREA_def sample_Area
      sort_candidate_regions_def sorted_py_def)

lemma site_small_openspace: "get_openspace sample_kernel site_small = Inr [Corner 0]"
  by (simp add: get_openspace_def site_small_candidates site_small_filtered
      adjust_candidate_regions_def site_small_fields sample_Area reduce_region_def
      sample_overlap_crv index0_def sample_Scale)

text \<open>The finite-precision kernel and the two further sites.\<close>

lemma grid_kernel_fields:
  "Area grid_kernel c = side c * side c"
  "Scale grid_kernel (Corner s) p f = Corner (grid (f * s))"
  by (simp_all add: grid_kernel_def sample_kernel_def)

lemma grid_overlap_crv:
  "get_overlap_crv grid_kernel a b = (if is_Corner a \<and> is_Corner b then [a] else [])"
  by (simp add: get_overlap_crv_def grid_kernel_def sample_kernel_def)

lemma grid_overlap_length:
  "get_overlap_length grid_kernel a b = (if is_Corner a \<and> is_Corner b then 4 * side a else 0)"
  by (simp add: get_overlap_length_def grid_overlap_crv) (simp add: grid_kernel_def sample_kernel_def)

lemma grid_relationship:
  "PlanarClosedCurveRelationship grid_kernel a b tol =
     (if is_Corner a \<and> is_Corner b then Touching
      else if \<not> is_Corner a \<and> \<not> is_Corner b then Contained else Disjoint)"
  by (simp add: grid_kernel_def sample_kernel_def)

lemma grid_offset_Corner:
  "offset_region_outward grid_kernel (Corner s) (MIN_DEPTH / 2) BIGNUM = Inr (Corner (s + 9))"
  by (simp add: offset_region_outward_def polyline_offset_def index0_def MIN_DEPTH_def
      grid_kernel_def sample_kernel_def)

lemma grid_inward:
  "offset_regions_inward grid_kernel rs (MIN_DEPTH / 2) BIGNUM =
     (if rs = [] then Inl ValueError
      else Inr (map (\<lambda>c. case c of Corner s \<Rightarrow> Corner (s - 9) | Island s \<Rightarrow> Island (s - 9)) rs))"
  by (simp add: offset_regions_inward_def polyline_offset_def MIN_DEPTH_def grid_kernel_def
      sample_kernel_def)

lemma site_grid_fields:
  "region (lot site_grid) = Corner 70"
  "roads site_grid = [\<lparr>curve = Corner 200\<rparr>]"
  "regions (building site_grid) = [Island 40]"
  "parking_region site_grid = Corner 30"
  "requirement_area (requirement site_grid) = 490"
  by (simp_all add: site_grid_def script_generator_def mk_Lot_def mk_Building_def
      mk_OpenspaceRequirement_def get_target_information_def district_uses_def
      building_uses_def AREA_RATIO_def MIN_AREA_def grid_kernel_fields Let_def)

lemma site_detached_fields:
  "region (lot site_detached) = Island 100"
  "roads site_detached = [\<lparr>curve = Corner 200\<rparr>]"
  "regions (building site_detached) = [Island 40]"
  "parking_region site_detached = Corner 40"
  "requirement_area (requirement site_detached) = 1000"
  by (simp_all add: site_detached_def script_generator_def mk_Lot_def mk_Building_def
      mk_OpenspaceRequirement_def get_target_information_def district_uses_def
      building_uses_def AREA_RATIO_def MIN_AREA_def sample_Area Let_def)

lemma site_grid_candidates:
  "get_candidate_regions grid_kernel site_grid = Inr [Corner 70, Corner 30]"
  by (simp add: get_candidate_regions_def grid_inward site_grid_fields
      filter_inward_regions_def has_region_intersection_def grid_relationship
      grid_offset_Corner)

lemma site_grid_ranked:
  "sort_candidate_regions grid_kernel
     (filter_candidate_regions grid_kernel site_grid [Corner 70, Corner 30])
   = [Corner 70, Corner 30]"
  by (simp add: filter_candidate_regions_def is_road_adjacent_def site_grid_fields
      grid_overlap_length ROAD_ADJUST_RATIO_def MIN_AREA_def grid_kernel_fields
      sort_candidate_regions_def sorted_py_def)

lemma site_detached_candidates:
  "get_candidate_regions sample_kernel site_detached = Inr [Corner 40]"
  by (simp add: get_candidate_regions_def sample_inward site_detached_fields
      filter_inward_regions_def has_region_intersection_def sample_relationship
      sample_offset_Corner)

lemma site_detached_ranked:
  "sort_candidate_regions sample_kernel
     (filter_candidate_regions sample_kernel site_detached [Corner 40])
   = [Corner 40]"
  by (simp add: filter_candidate_regions_def is_road_adjacent_def site_detached_fields
      sample_overlap_length ROAD_ADJUST_RATIO_def MIN_AREA_def sample_Area
      sort_candidate_regions_def sorted_py_def)

lemma site_detached_openspace: "get_openspace sample_kernel site_detached = Inl IndexError"
  by (simp add: get_openspace_def site_detached_candidates site_detached_ranked
      adjust_candidate_regions_def site_detached_fields sample_Area reduce_region_def
      sample_overlap_crv index0_def)

lemma grid_sqrt:
  assumes "0 \<le> x" and "0 \<le> s" and "0 \<le> n"
    and "(of_int n)\<^sup>2 \<le> x * (s * 1024)\<^sup>2" and "x * (s * 1024)\<^sup>2 < (of_int n + 1)\<^sup>2"
  shows "grid (sqrt x * s) = of_int n / 1024"
proof -
  have eq: "sqrt x * s * 1024 = sqrt (x * (s * 1024)\<^sup>2)"
    using assms(2) by (simp add: real_sqrt_mult)
  have lo: "of_int n \<le> sqrt (x * (s * 1024)\<^sup>2)"
    using assms(4) by (rule real_le_rsqrt)
  have hi: "sqrt (x * (s * 1024)\<^sup>2) < of_int n + 1"
    using assms(3,5) by (intro real_less_lsqrt) simp_all
  have "\<lfloor>sqrt x * s * 1024\<rfloor> = n"
    unfolding eq using lo hi by (simp add: floor_unique)
  then show ?thesis by (simp add: grid_def)
qed

lemma grid_first: "grid (sqrt (1 / 10) * 70) = 22667 / 1024"
  using grid_sqrt [of "1 / 10" 70 22667] by simp

lemma grid_second: "grid (sqrt (1039 / 104857600) * 30) = 3 / 32"
  using grid_sqrt [of "1039 / 104857600" 30 96] by simp

lemma site_grid_reduce_first:
  "reduce_region grid_kernel site_grid (Corner 70) 490 = Inr (Corner (22667 / 1024))"
  by (simp add: reduce_region_def grid_kernel_fields grid_overlap_crv site_grid_fields index0_def
      grid_first)

lemma site_grid_reduce_second:
  "reduce_region grid_kernel site_grid (Corner 30) (9351 / 1048576) = Inr (Corner (3 / 32))"
  by (simp add: reduce_region_def grid_kernel_fields grid_overlap_crv site_grid_fields index0_def
      grid_second)

lemma site_grid_openspace:
  "get_openspace grid_kernel site_grid = Inr [Corner (22667 / 1024), Corner (3 / 32)]"
  by (simp add: get_openspace_def site_grid_candidates site_grid_ranked
      adjust_candidate_regions_def site_grid_fields grid_kernel_fields
      site_grid_reduce_first site_grid_reduce_second)

subsection \<open>The candidate generator\<close>

text \<open>
  C6, as the code has it.  An inward region is kept exactly when the kernel's
  relationship between it and every building region is \<open>Disjoint\<close>; any other
  relationship with some building region, \<open>Touching\<close> included, discards it.
\<close>

theorem inward_region_kept_iff_disjoint:
  "filter_inward_regions K g rs =
     filter (\<lambda>r. \<forall>b\<in>set (regions (building g)).
                   PlanarClosedCurveRelationship K r b TOL = Disjoint) rs"
  by (simp add: filter_inward_regions_def has_region_intersection_def list_ex_iff)

theorem inward_region_kept_iff_disjoint_witness:
  "filter_inward_regions sample_kernel (site_island [Corner 200]) [Island 21, Corner 31]
     = [Island 21]
   \<and> PlanarClosedCurveRelationship sample_kernel (Island 21) (Corner 40) TOL = Disjoint
   \<and> PlanarClosedCurveRelationship sample_kernel (Corner 31) (Corner 40) TOL \<noteq> Disjoint"
  using inward_region_kept_iff_disjoint [of sample_kernel "site_island [Corner 200]"
      "[Island 21, Corner 31]"]
  by (simp add: site_island_fields sample_relationship)

text \<open>
  C6 as stated fails: a region that merely touches a building region is discarded.  On
  the sample kernel the inward region \<open>Corner 91\<close> touches the building region
  \<open>Corner 40\<close>, and the filter drops it.
\<close>

theorem touching_region_discarded:
  "regions (building (site_island [Corner 200])) = [Corner 40]
   \<and> PlanarClosedCurveRelationship sample_kernel (Corner 91) (Corner 40) TOL = Touching
   \<and> filter_inward_regions sample_kernel (site_island [Corner 200]) [Corner 91] = []"
  by (simp add: site_island_fields sample_relationship filter_inward_regions_def
      has_region_intersection_def)






subsection \<open>The candidate filter\<close>

lemma is_road_adjacent_loop_iff:
  "is_road_adjacent_loop K g c rs =
     (\<exists>r\<in>set rs. get_overlap_length K c (curve r)
                      > get_overlap_length K (region (lot g)) (curve r) * ROAD_ADJUST_RATIO)"
  by (induction rs) (auto simp: Let_def)

lemma filter_candidate_regions_eq:
  "filter_candidate_regions K g cs =
     filter (\<lambda>x. MIN_AREA \<le> Area K x \<and>
                 (\<exists>r\<in>set (roads g). get_overlap_length K x (curve r)
                      > get_overlap_length K (region (lot g)) (curve r) * ROAD_ADJUST_RATIO)) cs"
  by (simp add: filter_candidate_regions_def is_road_adjacent_def is_road_adjacent_loop_iff
      conj_commute)

text \<open>
  C4. Every polygon in the output of the candidate filter has area at least 90 and
  has a road whose overlap with it is longer than a quarter of the road's overlap with
  the lot; every input candidate that fails one of the two tests is absent from the
  output.
\<close>

theorem candidate_filter_sound_complete:
  "(\<forall>x\<in>set (filter_candidate_regions K g cs).
       90 \<le> Area K x \<and>
       (\<exists>r\<in>set (roads g). get_overlap_length K x (curve r)
                      > get_overlap_length K (region (lot g)) (curve r) * 0.25))
   \<and> (\<forall>x\<in>set cs.
         \<not> (90 \<le> Area K x \<and>
            (\<exists>r\<in>set (roads g). get_overlap_length K x (curve r)
                      > get_overlap_length K (region (lot g)) (curve r) * 0.25))
         \<longrightarrow> x \<notin> set (filter_candidate_regions K g cs))"
  by (simp add: filter_candidate_regions_eq MIN_AREA_def ROAD_ADJUST_RATIO_def)

lemma site_office_filter:
  "filter_candidate_regions sample_kernel site_office [Corner 30, Corner 5, Island 40, Corner 40]
     = [Corner 30, Corner 40]"
  by (simp add: filter_candidate_regions_eq sample_overlap_length MIN_AREA_def
      ROAD_ADJUST_RATIO_def site_office_fields sample_Area)

theorem candidate_filter_sound_complete_witness:
  "filter_candidate_regions sample_kernel site_office [Corner 30, Corner 5, Island 40, Corner 40]
     = [Corner 30, Corner 40]
   \<and> 90 \<le> Area sample_kernel (Corner 30)
   \<and> (\<exists>r\<in>set (roads site_office). get_overlap_length sample_kernel (Corner 30) (curve r)
          > get_overlap_length sample_kernel (region (lot site_office)) (curve r) * 0.25)
   \<and> Corner 5 \<in> set [Corner 30, Corner 5, Island 40, Corner 40]
   \<and> \<not> 90 \<le> Area sample_kernel (Corner 5)
   \<and> Corner 5 \<notin> set (filter_candidate_regions sample_kernel site_office
                        [Corner 30, Corner 5, Island 40, Corner 40])"
proof -
  let ?cs = "[Corner 30, Corner 5, Island 40, Corner 40]"
  note inst = candidate_filter_sound_complete [of sample_kernel site_office ?cs]
  have small: "\<not> 90 \<le> Area sample_kernel (Corner 5)"
    by (simp add: sample_Area)
  have "Corner 30 \<in> set (filter_candidate_regions sample_kernel site_office ?cs)"
    by (simp add: site_office_filter)
  with inst have ok: "90 \<le> Area sample_kernel (Corner 30)
   \<and> (\<exists>r\<in>set (roads site_office). get_overlap_length sample_kernel (Corner 30) (curve r)
          > get_overlap_length sample_kernel (region (lot site_office)) (curve r) * 0.25)"
    by blast
  have "Corner 5 \<in> set ?cs" by simp
  with inst small
  have "Corner 5 \<notin> set (filter_candidate_regions sample_kernel site_office ?cs)"
    by blast
  with site_office_filter ok small show ?thesis by simp
qed

text \<open>
  C8, as the code has it.  Without roads the candidate filter returns the empty list
  for every candidate list, and the pipeline returns the empty list whenever the
  candidate generator, which runs first, returns candidates; an error of the generator
  remains the result of the pipeline.
\<close>

theorem no_roads_no_openspace:
  assumes "roads g = []"
  shows "filter_candidate_regions K g cs = []
         \<and> get_openspace K g =
             (case get_candidate_regions K g of Inl e \<Rightarrow> Inl e | Inr candidates \<Rightarrow> Inr [])"
proof -
  have f: "filter_candidate_regions K g xs = []" for xs
    using assms by (simp add: filter_candidate_regions_eq)
  have "sort_candidate_regions K [] = []"
    by (simp add: sort_candidate_regions_def sorted_py_def)
  then show ?thesis
    using f by (simp add: get_openspace_def adjust_candidate_regions_def split: sum.splits)
qed

theorem no_roads_no_openspace_witness:
  "roads site_no_road = []
   \<and> filter_candidate_regions sample_kernel site_no_road [Corner 100, Corner 30] = []
   \<and> get_candidate_regions sample_kernel site_no_road = Inr [Corner 100, Corner 30]
   \<and> get_openspace sample_kernel site_no_road = Inr []"
proof -
  have r: "roads site_no_road = []" by (simp add: site_no_road_fields)
  show ?thesis
    using r no_roads_no_openspace [OF r, of sample_kernel "[Corner 100, Corner 30]"]
    by (simp add: site_no_road_candidates)
qed

text \<open>
  C8 as stated fails: with an empty list of roads the pipeline can still raise.  On the
  sample site with the parking region apart from the building and no road, the
  generator fails before the filter is reached.
\<close>

theorem no_roads_pipeline_aborts:
  "roads (site_island []) = []
   \<and> get_openspace sample_kernel (site_island []) = Inl IndexError"
  by (simp add: site_island_fields get_openspace_def site_island_candidates)

subsection \<open>The candidate ranker\<close>

text \<open>
  C5. The output of the ranker is a permutation of its input, sorted by area in
  descending order, and the sort is stable: for every area, the candidates of that
  area appear in the output in the order they have in the input.
\<close>

theorem ranker_sorted_permutation_stable:
  "mset (sort_candidate_regions K cs) = mset cs
   \<and> sorted_wrt (\<lambda>x y. Area K y \<le> Area K x) (sort_candidate_regions K cs)
   \<and> (\<forall>a. filter (\<lambda>x. Area K x = a) (sort_candidate_regions K cs)
            = filter (\<lambda>x. Area K x = a) cs)"
proof -
  let ?out = "sort_key (\<lambda>x. - Area K x) cs"
  have out: "sort_candidate_regions K cs = ?out"
    by (simp add: sort_candidate_regions_def sorted_py_def)
  have "sorted (map (\<lambda>x. - Area K x) ?out)" by (rule sorted_sort_key)
  then have desc: "sorted_wrt (\<lambda>x y. Area K y \<le> Area K x) ?out"
    by (simp add: sorted_wrt_map)
  have stable: "filter (\<lambda>x. Area K x = a) ?out = filter (\<lambda>x. Area K x = a) cs" for a
    using sort_key_stable [of "\<lambda>x. - Area K x" "- a" cs] by simp
  show ?thesis unfolding out using desc stable by simp
qed

subsection \<open>The candidate fitter\<close>

lemma index0_Inl: "index0 xs = Inl e \<longleftrightarrow> e = IndexError \<and> xs = []"
  by (auto simp: index0_def split: list.splits)

lemma reduce_region_Inl:
  assumes "t < Area K c" and "0 \<le> t" and "reduce_region K g c t = Inl e"
  shows "e = IndexError \<and> get_overlap_crv K c (region (lot g)) = []"
proof -
  from assms(1,2) have pos: "0 < Area K c" by linarith
  then have q: "\<not> t / Area K c < 0" using assms(2) by (simp add: not_less)
  from assms(3) pos assms(1) q show ?thesis
    by (auto simp: reduce_region_def Let_def index0_Inl split: sum.splits if_splits)
qed

lemma sum_area_Nil: "sum_area K [] = 0"
  by (simp add: sum_area_def)

lemma sum_area_Cons: "sum_area K (c # cs) = Area K c + sum_area K cs"
  by (simp add: sum_area_def)

lemma sum_area_nonneg: "\<forall>c\<in>set cs. 0 \<le> Area K c \<Longrightarrow> 0 \<le> sum_area K cs"
  by (induction cs) (simp_all add: sum_area_def)

text \<open>The only error of the loop is the failed index into an empty overlap list.\<close>

lemma adjust_loop_Inl:
  assumes "\<forall>c\<in>set cs. 0 \<le> Area K c"
    and "tot \<le> requirement_area (requirement g)"
    and "adjust_loop K g tot adj cs = Inl e"
  shows "e = IndexError \<and> (\<exists>c\<in>set cs. get_overlap_crv K c (region (lot g)) = [])"
  using assms
proof (induction cs arbitrary: tot adj)
  case Nil
  then show ?case by simp
next
  case (Cons c rest)
  let ?R = "requirement_area (requirement g)"
  let ?a = "Area K c"
  from Cons.prems(1) have rest0: "\<forall>c\<in>set rest. 0 \<le> Area K c" by simp
  show ?case
  proof (cases "tot + ?a > ?R")
    case True
    have t: "?R - tot < ?a" "0 \<le> ?R - tot" using True Cons.prems(2) by simp_all
    show ?thesis
    proof (cases "reduce_region K g c (?R - tot)")
      case (Inl e')
      with Cons.prems(3) True have "e' = e" by simp
      with reduce_region_Inl [OF t Inl] show ?thesis by simp
    next
      case (Inr c')
      with Cons.prems(3) True have
        "\<not> tot + Area K c' \<ge> ?R" "adjust_loop K g (tot + Area K c') (adj @ [c']) rest = Inl e"
        by (auto split: if_splits)
      with Cons.IH [OF rest0, of "tot + Area K c'" "adj @ [c']"] show ?thesis by simp
    qed
  next
    case False
    with Cons.prems(3) have
      "\<not> tot + ?a \<ge> ?R" "adjust_loop K g (tot + ?a) (adj @ [c]) rest = Inl e"
      by (auto split: if_splits)
    with Cons.IH [OF rest0, of "tot + ?a" "adj @ [c]"] show ?thesis by simp
  qed
qed

text \<open>
  As long as the candidates together stay below what is still required, the loop
  accepts every one of them as it is.
\<close>

lemma adjust_loop_unmet:
  assumes "\<forall>c\<in>set cs. 0 \<le> Area K c"
    and "tot + sum_area K cs < requirement_area (requirement g)"
  shows "adjust_loop K g tot adj cs = Inr (adj @ cs)"
  using assms
proof (induction cs arbitrary: tot adj)
  case Nil
  then show ?case by simp
next
  case (Cons c rest)
  from Cons.prems(1) have "0 \<le> sum_area K rest" by (simp add: sum_area_nonneg)
  with Cons.prems have "\<not> tot + Area K c > requirement_area (requirement g)"
    "\<not> tot + Area K c \<ge> requirement_area (requirement g)"
    by (simp_all add: sum_area_Cons)
  moreover have "adjust_loop K g (tot + Area K c) (adj @ [c]) rest = Inr ((adj @ [c]) @ rest)"
    using Cons.prems by (intro Cons.IH) (simp_all add: sum_area_Cons add.assoc)
  ultimately show ?case by simp
qed

text \<open>
  C1, evaluated.  The claim is that on every ranked list the fitter returns an accepted
  list whose total area is the requirement when the ranked total reaches it, every
  accepted region but the last being an input candidate.  Two runs of the whole script
  on the sample kernels break it.  On \<open>site_detached\<close> the one ranked candidate exceeds
  the requirement, the overlap list indexed in the shrink branch is empty, and there is
  no accepted list but the index error.  On \<open>site_grid\<close> the first candidate is shrunk
  to the requirement of 490, its measured area falls short of 490, the loop goes on and
  shrinks the second candidate too: both accepted regions are modified, and the total
  stays below 490, within a tenth of it.
\<close>

theorem fitter_contract_broken:
  "get_candidate_regions sample_kernel site_detached = Inr [Corner 40]
   \<and> sort_candidate_regions sample_kernel
        (filter_candidate_regions sample_kernel site_detached [Corner 40]) = [Corner 40]
   \<and> requirement_area (requirement site_detached) \<le> sum_area sample_kernel [Corner 40]
   \<and> get_openspace sample_kernel site_detached = Inl IndexError
   \<and> requirement_area (requirement site_grid) = 490
   \<and> get_candidate_regions grid_kernel site_grid = Inr [Corner 70, Corner 30]
   \<and> sort_candidate_regions grid_kernel
        (filter_candidate_regions grid_kernel site_grid [Corner 70, Corner 30])
       = [Corner 70, Corner 30]
   \<and> get_openspace grid_kernel site_grid = Inr [Corner (22667 / 1024), Corner (3 / 32)]
   \<and> butlast [Corner (22667 / 1024), Corner (3 / 32)] \<noteq> take 1 [Corner 70, Corner 30]
   \<and> sum_area grid_kernel [Corner (22667 / 1024), Corner (3 / 32)] < 490
   \<and> 490 - 1 / 10 \<le> sum_area grid_kernel [Corner (22667 / 1024), Corner (3 / 32)]
   \<and> 490 \<le> sum_area grid_kernel [Corner 70, Corner 30]"
  by (simp add: site_detached_candidates site_detached_ranked site_detached_fields
      site_detached_openspace site_grid_fields site_grid_candidates site_grid_ranked
      site_grid_openspace sum_area_def sample_Area grid_kernel_fields)


text \<open>
  The fitter appends before it compares the total with the requirement, so on a
  non-empty candidate list it never returns the empty list, whatever the requirement.
\<close>

lemma adjust_never_empty: "adjust_candidate_regions K g (c # cs) \<noteq> Inr []"
proof -
  have "adjust_loop K g tot adj xs \<noteq> Inr []" if "adj \<noteq> []" for tot adj xs
    using that by (induction xs arbitrary: tot adj) (auto split: sum.splits)
  then show ?thesis
    by (auto simp: adjust_candidate_regions_def split: sum.splits)
qed

text \<open>
  C3, evaluated.  The claim is that a requirement of 0 gives an empty accepted set.  On
  the sample site whose building has a total floor area of 4000 the requirement is 0,
  two candidates pass the filter, and the pipeline returns one region, the first
  candidate scaled by the factor 0.
\<close>

theorem zero_requirement_keeps_a_region:
  "total_area (building site_small) = 4000
   \<and> requirement_area (requirement site_small) = 0
   \<and> get_candidate_regions sample_kernel site_small = Inr [Corner 100, Corner 30]
   \<and> filter_candidate_regions sample_kernel site_small [Corner 100, Corner 30]
       = [Corner 100, Corner 30]
   \<and> get_openspace sample_kernel site_small = Inr [Corner 0]
   \<and> length [Corner 0] = 1
   \<and> sum_area sample_kernel [Corner 0] = 0"
  by (simp add: site_small_fields site_small_openspace site_small_candidates
      filter_candidate_regions_eq sample_overlap_length MIN_AREA_def ROAD_ADJUST_RATIO_def
      sample_Area sum_area_def)

text \<open>
  On any kernel, a first candidate that exceeds the requirement and has an empty
  overlap list with the boundary of the lot ends the fitter in the index error.
\<close>

lemma adjust_first_IndexError:
  assumes "requirement_area (requirement g) < Area K c"
    and "Area K c \<noteq> 0"
    and "get_overlap_crv K c (region (lot g)) = []"
  shows "adjust_candidate_regions K g (c # cs) = Inl IndexError"
  using assms by (simp add: adjust_candidate_regions_def reduce_region_def index0_def)

text \<open>
  C10, evaluated.  The claim is that the overlap list indexed in the shrink branch is
  never empty.  On the sample kernel the candidate \<open>Island 40\<close> exceeds the requirement
  of 1000, so it reaches the shrink branch; its boundary does not meet the boundary of
  the lot, its overlap list is empty, and the fitter ends in the index error.
\<close>

theorem shrink_branch_index_error:
  "requirement_area (requirement site_office) < Area sample_kernel (Island 40)
   \<and> get_overlap_crv sample_kernel (Island 40) (region (lot site_office)) = []
   \<and> adjust_candidate_regions sample_kernel site_office [Island 40] = Inl IndexError"
  by (simp add: adjust_candidate_regions_def site_office_fields sample_Area reduce_region_def
      sample_overlap_crv index0_def)

end
